theory Spec2Isabelle
  imports Complex_Main "HOL-Library.Multiset" "HOL-Library.Product_Lexorder"
begin

section \<open>Data model (app/models.py, app/schemas.py)\<close>

text \<open>
  The routers of the Photo Client Manager API, as functions on an explicit store: a
  handler takes its parameters and the store and returns either the error it raises or
  its response (with the store it committed, when it writes).

  Python's \<^verbatim>\<open>Decimal\<close> is modelled by \<^typ>\<open>rat\<close>: every finite decimal is a
  rational, and \<^verbatim>\<open>+\<close>, \<^verbatim>\<open>-\<close> and the comparisons on decimals are exact
  (the model reads amounts within the precision of the decimal context, where Python
  does not round). A \<^verbatim>\<open>date\<close> is its ordinal day and a \<^verbatim>\<open>datetime\<close> a point
  on a linear time axis, both \<^typ>\<open>int\<close>. A table is the list of its rows. A payload is
  one that the schema has accepted (its fields have their declared types); the sizes of
  the columns (\<^verbatim>\<open>String(n)\<close>, \<^verbatim>\<open>DECIMAL(10, 2)\<close>) are the store's and are not
  modelled: a row holds what the handler wrote.
\<close>

type_synonym money = rat
type_synonym date = int
type_synonym datetime = int

record client =
  client_id :: int
  client_name :: string
  client_email :: string
  client_phone :: "string option"

record shoot =
  shoot_id :: int
  shoot_client_id :: int
  shoot_date :: date
  shoot_location :: "string option"

record package =
  package_id :: int
  package_name :: string
  package_description :: "string option"
  package_price :: money
  package_is_active :: bool

record invoice =
  invoice_id :: int
  invoice_client_id :: int
  invoice_shoot_id :: "int option"
  invoice_package_id :: "int option"
  invoice_amount :: money
  invoice_status :: string
  invoice_issued_date :: date
  invoice_due_date :: "date option"

record payment =
  payment_id :: int
  payment_invoice_id :: int
  payment_amount :: money
  payment_method :: "string option"
  payment_paid_at :: datetime

text \<open>The store the session \<^verbatim>\<open>db\<close> reads and writes: one list of rows per table.\<close>

record db =
  clients :: "client list"
  shoots :: "shoot list"
  packages :: "package list"
  invoices :: "invoice list"
  payments :: "payment list"

text \<open>
  What a handler can raise. \<^verbatim>\<open>HTTPException(status_code, detail)\<close> is raised by the
  routers themselves; \<open>RequestValidationError\<close> is the framework's answer to a query or
  path parameter outside its declared bounds (\<^verbatim>\<open>Query(50, ge=1, le=200)\<close>,
  \<^verbatim>\<open>Path(..., ge=1)\<close>); \<open>ValidationError\<close> is raised by a schema constructor that
  is not given its required fields (it lists them); \<open>IntegrityError\<close> is raised by
  \<^verbatim>\<open>db.commit()\<close> when a column constraint of models.py is violated.
\<close>

datatype error =
    HTTPException int string
  | RequestValidationError
  | ValidationError "string list"
  | IntegrityError

section \<open>Queries\<close>

text \<open>\<^verbatim>\<open>query.first()\<close>: the first row of the result, or \<^verbatim>\<open>None\<close>.\<close>

definition first :: "'a list \<Rightarrow> 'a option" where
  "first rows = (case rows of [] \<Rightarrow> None | r # _ \<Rightarrow> Some r)"

text \<open>SQL \<^verbatim>\<open>SUM\<close> is NULL over no rows; \<^verbatim>\<open>COALESCE\<close> replaces NULL.\<close>

definition sql_sum :: "money list \<Rightarrow> money option" where
  "sql_sum xs = (if xs = [] then None else Some (sum_list xs))"

definition coalesce :: "'a option \<Rightarrow> 'a \<Rightarrow> 'a" where
  "coalesce v d = (case v of None \<Rightarrow> d | Some x \<Rightarrow> x)"

text \<open>
  The integer primary keys are assigned by the store (auto increment): a new row gets an
  id above those of the rows of its table, from \<open>1\<close> on.
\<close>

definition next_id :: "int list \<Rightarrow> int" where
  "next_id ids = fold max ids 0 + 1"

text \<open>
  \<^verbatim>\<open>db.query(func.coalesce(func.sum(Payment.amount), 0))
     .filter(Payment.invoice_id == invoice.invoice_id).scalar()\<close>
\<close>

definition total_paid_of :: "db \<Rightarrow> int \<Rightarrow> money" where
  "total_paid_of d iid =
     coalesce (sql_sum (map payment_amount
       (filter (\<lambda>p. payment_invoice_id p = iid) (payments d)))) 0"

section \<open>Payments (app/routers/payments.py)\<close>

record payment_create =
  pc_invoice_id :: int
  pc_amount :: money
  pc_method :: "string option"
  pc_paid_at :: "datetime option"

definition get_invoice_or_404 :: "db \<Rightarrow> int \<Rightarrow> error + invoice" where
  "get_invoice_or_404 d iid =
     (case first (filter (\<lambda>i. invoice_id i = iid) (invoices d)) of
        None \<Rightarrow> Inl (HTTPException 404 ''Invoice not found'')
      | Some obj \<Rightarrow> Inr obj)"

definition get_payment_or_404 :: "db \<Rightarrow> int \<Rightarrow> error + payment" where
  "get_payment_or_404 d pid =
     (case first (filter (\<lambda>p. payment_id p = pid) (payments d)) of
        None \<Rightarrow> Inl (HTTPException 404 ''Payment not found'')
      | Some obj \<Rightarrow> Inr obj)"

text \<open>
  \<open>create_payment\<close>. The clock \<open>now\<close> is the store's \<^verbatim>\<open>server_default=func.now()\<close>
  for \<^verbatim>\<open>paid_at\<close>, used when the payload gives none.
\<close>

definition create_payment :: "datetime \<Rightarrow> payment_create \<Rightarrow> db \<Rightarrow> error + (db \<times> payment)" where
  "create_payment now payload d =
     (if pc_amount payload \<le> 0 then
        Inl (HTTPException 400 ''Amount must be greater than zero'')
      else
        case get_invoice_or_404 d (pc_invoice_id payload) of
          Inl e \<Rightarrow> Inl e
        | Inr invoice \<Rightarrow>
            let total_paid = total_paid_of d (invoice_id invoice);
                new_total = total_paid + pc_amount payload
            in if new_total > invoice_amount invoice then
                 Inl (HTTPException 400 ''Payment exceeds invoice amount'')
               else
                 let pay = \<lparr> payment_id = next_id (map payment_id (payments d)),
                             payment_invoice_id = pc_invoice_id payload,
                             payment_amount = pc_amount payload,
                             payment_method = pc_method payload,
                             payment_paid_at = coalesce (pc_paid_at payload) now \<rparr>
                 in Inr (d\<lparr>payments := payments d @ [pay]\<rparr>, pay))"

definition delete_payment :: "int \<Rightarrow> db \<Rightarrow> error + db" where
  "delete_payment pid d =
     (if pid < 1 then Inl RequestValidationError
      else
        case get_payment_or_404 d pid of
          Inl e \<Rightarrow> Inl e
        | Inr pay \<Rightarrow>
            Inr (d\<lparr>payments := filter (\<lambda>p. payment_id p \<noteq> payment_id pay) (payments d)\<rparr>))"

section \<open>Pagination and ordering of the list endpoints\<close>

text \<open>
  \<^verbatim>\<open>skip: int = Query(0, ge=0)\<close> and \<^verbatim>\<open>limit: int = Query(50, ge=1, le=200)\<close>:
  a parameter the request leaves out takes its default, and one outside its bounds is
  refused before the handler runs.
\<close>

definition query_skip_limit :: "int option \<Rightarrow> int option \<Rightarrow> error + (nat \<times> nat)" where
  "query_skip_limit skip limit =
     (let s = coalesce skip 0; l = coalesce limit 50
      in if s < 0 \<or> l < 1 \<or> 200 < l then Inl RequestValidationError
         else Inr (nat s, nat l))"

text \<open>\<^verbatim>\<open>.order_by(col)\<close>, \<^verbatim>\<open>.order_by(col.desc(), ...)\<close>, \<^verbatim>\<open>.offset(skip).limit(limit)\<close>.\<close>

definition order_by :: "('a \<Rightarrow> 'k::linorder) \<Rightarrow> 'a list \<Rightarrow> 'a list" where
  "order_by key rows = sort_key key rows"

definition order_by_desc :: "('a \<Rightarrow> 'k::linorder) \<Rightarrow> 'a list \<Rightarrow> 'a list" where
  "order_by_desc key rows = rev (sort_key key rows)"

definition offset_limit :: "nat \<Rightarrow> nat \<Rightarrow> 'a list \<Rightarrow> 'a list" where
  "offset_limit skip limit rows = take limit (drop skip rows)"

definition list_payments :: "int option \<Rightarrow> int option \<Rightarrow> db \<Rightarrow> error + payment list" where
  "list_payments skip limit d =
     (case query_skip_limit skip limit of
        Inl e \<Rightarrow> Inl e
      | Inr (s, l) \<Rightarrow> Inr (offset_limit s l (order_by_desc payment_id (payments d))))"

section \<open>Clients (app/routers/clients.py)\<close>

record client_create =
  cc_name :: string
  cc_email :: string
  cc_phone :: "string option"

text \<open>
  An update payload: every field is \<^verbatim>\<open>Optional[...] = None\<close>. For each field the
  outer option says whether the request set it (\<open>None\<close>: unset, left out by
  \<^verbatim>\<open>model_dump(exclude_unset=True)\<close>), the inner one is the value it set, which may be
  an explicit null.
\<close>

record client_update =
  cu_name :: "string option option"
  cu_email :: "string option option"
  cu_phone :: "string option option"

text \<open>One item of the dict \<^verbatim>\<open>data\<close>: the field's name with its value.\<close>

datatype client_item =
    CU_name "string option"
  | CU_email "string option"
  | CU_phone "string option"

definition client_update_dump :: "client_update \<Rightarrow> client_item list" where
  "client_update_dump payload =
     (case cu_name payload of None \<Rightarrow> [] | Some v \<Rightarrow> [CU_name v]) @
     (case cu_email payload of None \<Rightarrow> [] | Some v \<Rightarrow> [CU_email v]) @
     (case cu_phone payload of None \<Rightarrow> [] | Some v \<Rightarrow> [CU_phone v])"

text \<open>
  \<^verbatim>\<open>setattr(obj, field, value)\<close> followed by \<^verbatim>\<open>db.commit()\<close>. A null assigned to a
  column declared \<^verbatim>\<open>nullable=False\<close> makes the commit raise; the model raises at the
  assignment, nothing having been written in between.
\<close>

fun client_setattr :: "client_item \<Rightarrow> client \<Rightarrow> error + client" where
  "client_setattr (CU_name v) c =
     (case v of None \<Rightarrow> Inl IntegrityError | Some x \<Rightarrow> Inr (c\<lparr>client_name := x\<rparr>))"
| "client_setattr (CU_email v) c =
     (case v of None \<Rightarrow> Inl IntegrityError | Some x \<Rightarrow> Inr (c\<lparr>client_email := x\<rparr>))"
| "client_setattr (CU_phone v) c = Inr (c\<lparr>client_phone := v\<rparr>)"

text \<open>\<^verbatim>\<open>for field, value in data.items(): setattr(obj, field, value)\<close>\<close>

fun setattr_all :: "('i \<Rightarrow> 'r \<Rightarrow> error + 'r) \<Rightarrow> 'i list \<Rightarrow> 'r \<Rightarrow> error + 'r" where
  "setattr_all f [] r = Inr r"
| "setattr_all f (x # xs) r =
     (case f x r of Inl e \<Rightarrow> Inl e | Inr r' \<Rightarrow> setattr_all f xs r')"

definition get_client_or_404 :: "db \<Rightarrow> int \<Rightarrow> error + client" where
  "get_client_or_404 d cid =
     (case first (filter (\<lambda>c. client_id c = cid) (clients d)) of
        None \<Rightarrow> Inl (HTTPException 404 ''Client not found'')
      | Some obj \<Rightarrow> Inr obj)"

definition create_client :: "client_create \<Rightarrow> db \<Rightarrow> error + (db \<times> client)" where
  "create_client payload d =
     (case first (filter (\<lambda>c. client_email c = cc_email payload) (clients d)) of
        Some existing \<Rightarrow> Inl (HTTPException 409 ''A client with this email already exists'')
      | None \<Rightarrow>
          let c = \<lparr> client_id = next_id (map client_id (clients d)),
                    client_name = cc_name payload,
                    client_email = cc_email payload,
                    client_phone = cc_phone payload \<rparr>
          in Inr (d\<lparr>clients := clients d @ [c]\<rparr>, c))"

definition list_clients :: "int option \<Rightarrow> int option \<Rightarrow> db \<Rightarrow> error + client list" where
  "list_clients skip limit d =
     (case query_skip_limit skip limit of
        Inl e \<Rightarrow> Inl e
      | Inr (s, l) \<Rightarrow> Inr (offset_limit s l (order_by client_id (clients d))))"

text \<open>
  \<open>update_client\<close>. With \<^verbatim>\<open>"email" in data\<close> the clash query compares the stored
  emails with \<^verbatim>\<open>data["email"]\<close>; for an explicit null it is \<^verbatim>\<open>email IS NULL\<close>,
  which no row satisfies, the column being \<^verbatim>\<open>nullable=False\<close>.
\<close>

definition email_clash :: "db \<Rightarrow> int \<Rightarrow> string option option \<Rightarrow> client option" where
  "email_clash d cid v =
     (case v of
        Some (Some e) \<Rightarrow>
          first (filter (\<lambda>c. client_email c = e \<and> client_id c \<noteq> cid) (clients d))
      | _ \<Rightarrow> None)"

definition update_client :: "int \<Rightarrow> client_update \<Rightarrow> db \<Rightarrow> error + (db \<times> client)" where
  "update_client cid payload d =
     (if cid < 1 then Inl RequestValidationError
      else
        case get_client_or_404 d cid of
          Inl e \<Rightarrow> Inl e
        | Inr obj \<Rightarrow>
            (case email_clash d cid (cu_email payload) of
               Some clash \<Rightarrow> Inl (HTTPException 409 ''Oops another client already uses this email'')
             | None \<Rightarrow>
                 (case setattr_all client_setattr (client_update_dump payload) obj of
                    Inl e \<Rightarrow> Inl e
                  | Inr obj' \<Rightarrow>
                      Inr (d\<lparr>clients :=
                             map (\<lambda>c. if client_id c = client_id obj then obj' else c) (clients d)\<rparr>,
                           obj'))))"

text \<open>
  \<open>delete_client\<close>: \<^verbatim>\<open>db.delete(client); db.commit()\<close>. What the delete takes with it
  is declared in models.py: \<^verbatim>\<open>Client.shoots\<close> and \<^verbatim>\<open>Client.invoices\<close> are
  \<^verbatim>\<open>cascade="all, delete-orphan"\<close>, and so is \<^verbatim>\<open>Invoice.payments\<close>, so the client's
  shoots and invoices and those invoices' payments are deleted with it;
  \<^verbatim>\<open>Invoice.shoot_id\<close> is \<^verbatim>\<open>ondelete="SET NULL"\<close> (and \<^verbatim>\<open>Shoot.invoices\<close> has no
  delete cascade), so an invoice that stays and refers to a deleted shoot has the
  reference cleared.
\<close>

definition delete_client :: "int \<Rightarrow> db \<Rightarrow> error + db" where
  "delete_client cid d =
     (if cid < 1 then Inl RequestValidationError
      else
        case get_client_or_404 d cid of
          Inl e \<Rightarrow> Inl e
        | Inr obj \<Rightarrow>
            let gone_shoots =
                  map shoot_id (filter (\<lambda>s. shoot_client_id s = client_id obj) (shoots d));
                gone_invoices =
                  map invoice_id (filter (\<lambda>i. invoice_client_id i = client_id obj) (invoices d))
            in Inr \<lparr> clients = filter (\<lambda>c. client_id c \<noteq> client_id obj) (clients d),
                     shoots = filter (\<lambda>s. shoot_client_id s \<noteq> client_id obj) (shoots d),
                     packages = packages d,
                     invoices =
                       map (\<lambda>i. case invoice_shoot_id i of
                                   None \<Rightarrow> i
                                 | Some s \<Rightarrow>
                                     if s \<in> set gone_shoots then i\<lparr>invoice_shoot_id := None\<rparr>
                                     else i)
                         (filter (\<lambda>i. invoice_client_id i \<noteq> client_id obj) (invoices d)),
                     payments =
                       filter (\<lambda>p. payment_invoice_id p \<notin> set gone_invoices) (payments d) \<rparr>)"

section \<open>Shoots (app/routers/shoots.py)\<close>

record shoot_create =
  sc_client_id :: int
  sc_shoot_date :: date
  sc_location :: "string option"





definition get_shoot_or_404 :: "db \<Rightarrow> int \<Rightarrow> error + shoot" where
  "get_shoot_or_404 d sid =
     (case first (filter (\<lambda>s. shoot_id s = sid) (shoots d)) of
        None \<Rightarrow> Inl (HTTPException 404 ''Shoot not found'')
      | Some obj \<Rightarrow> Inr obj)"

definition create_shoot :: "shoot_create \<Rightarrow> db \<Rightarrow> error + (db \<times> shoot)" where
  "create_shoot payload d =
     (case first (filter (\<lambda>c. client_id c = sc_client_id payload) (clients d)) of
        None \<Rightarrow> Inl (HTTPException 400 ''Client does not exist'')
      | Some c \<Rightarrow>
          let s = \<lparr> shoot_id = next_id (map shoot_id (shoots d)),
                    shoot_client_id = sc_client_id payload,
                    shoot_date = sc_shoot_date payload,
                    shoot_location = sc_location payload \<rparr>
          in Inr (d\<lparr>shoots := shoots d @ [s]\<rparr>, s))"

definition list_shoots :: "int option \<Rightarrow> int option \<Rightarrow> db \<Rightarrow> error + shoot list" where
  "list_shoots skip limit d =
     (case query_skip_limit skip limit of
        Inl e \<Rightarrow> Inl e
      | Inr (s, l) \<Rightarrow>
          Inr (offset_limit s l (order_by_desc (\<lambda>x. (shoot_date x, shoot_id x)) (shoots d))))"


text \<open>
  \<open>delete_shoot\<close>: invoices that refer to the shoot stay, their \<^verbatim>\<open>shoot_id\<close> cleared
  (\<^verbatim>\<open>ondelete="SET NULL"\<close>).
\<close>

definition delete_shoot :: "int \<Rightarrow> db \<Rightarrow> error + db" where
  "delete_shoot sid d =
     (if sid < 1 then Inl RequestValidationError
      else
        case get_shoot_or_404 d sid of
          Inl e \<Rightarrow> Inl e
        | Inr obj \<Rightarrow>
            Inr (d\<lparr>shoots := filter (\<lambda>s. shoot_id s \<noteq> shoot_id obj) (shoots d),
                   invoices :=
                     map (\<lambda>i. if invoice_shoot_id i = Some (shoot_id obj)
                               then i\<lparr>invoice_shoot_id := None\<rparr> else i) (invoices d)\<rparr>))"

section \<open>Packages (app/routers/packages.py)\<close>

record package_create =
  kc_name :: string
  kc_description :: "string option"
  kc_price :: money
  kc_is_active :: "bool option"





definition get_package_or_404 :: "db \<Rightarrow> int \<Rightarrow> error + package" where
  "get_package_or_404 d kid =
     (case first (filter (\<lambda>k. package_id k = kid) (packages d)) of
        None \<Rightarrow> Inl (HTTPException 404 ''Package not found'')
      | Some obj \<Rightarrow> Inr obj)"

text \<open>
  The router makes no check of its own on the name; the column is \<^verbatim>\<open>unique=True\<close>, so
  the commit raises when another package has the name.
\<close>

definition name_taken :: "db \<Rightarrow> int \<Rightarrow> string \<Rightarrow> bool" where
  "name_taken d kid n =
     (first (filter (\<lambda>k. package_name k = n \<and> package_id k \<noteq> kid) (packages d)) \<noteq> None)"

definition create_package :: "package_create \<Rightarrow> db \<Rightarrow> error + (db \<times> package)" where
  "create_package payload d =
     (let k = \<lparr> package_id = next_id (map package_id (packages d)),
                package_name = kc_name payload,
                package_description = kc_description payload,
                package_price = kc_price payload,
                package_is_active = coalesce (kc_is_active payload) True \<rparr>
      in if name_taken d (package_id k) (package_name k) then Inl IntegrityError
         else Inr (d\<lparr>packages := packages d @ [k]\<rparr>, k))"

definition list_packages :: "int option \<Rightarrow> int option \<Rightarrow> db \<Rightarrow> error + package list" where
  "list_packages skip limit d =
     (case query_skip_limit skip limit of
        Inl e \<Rightarrow> Inl e
      | Inr (s, l) \<Rightarrow> Inr (offset_limit s l (order_by_desc package_id (packages d))))"


text \<open>
  \<open>delete_package\<close>: invoices that refer to the package stay, their \<^verbatim>\<open>package_id\<close>
  cleared (\<^verbatim>\<open>ondelete="SET NULL"\<close>).
\<close>

definition delete_package :: "int \<Rightarrow> db \<Rightarrow> error + db" where
  "delete_package kid d =
     (if kid < 1 then Inl RequestValidationError
      else
        case get_package_or_404 d kid of
          Inl e \<Rightarrow> Inl e
        | Inr obj \<Rightarrow>
            Inr (d\<lparr>packages := filter (\<lambda>k. package_id k \<noteq> package_id obj) (packages d),
                   invoices :=
                     map (\<lambda>i. if invoice_package_id i = Some (package_id obj)
                               then i\<lparr>invoice_package_id := None\<rparr> else i) (invoices d)\<rparr>))"

section \<open>Invoices (app/routers/invoices.py)\<close>

text \<open>\<^verbatim>\<open>status: str = "draft"\<close>: \<open>None\<close> is a request that leaves the status out.\<close>

record invoice_create =
  ic_client_id :: int
  ic_amount :: money
  ic_issued_date :: date
  ic_status :: "string option"
  ic_due_date :: "date option"
  ic_shoot_id :: "int option"
  ic_package_id :: "int option"

record invoice_update =
  iu_amount :: "money option option"
  iu_status :: "string option option"
  iu_issued_date :: "date option option"
  iu_due_date :: "date option option"
  iu_shoot_id :: "int option option"
  iu_package_id :: "int option option"

datatype invoice_item =
    IU_amount "money option"
  | IU_status "string option"
  | IU_issued_date "date option"
  | IU_due_date "date option"
  | IU_shoot_id "int option"
  | IU_package_id "int option"

definition invoice_update_dump :: "invoice_update \<Rightarrow> invoice_item list" where
  "invoice_update_dump payload =
     (case iu_amount payload of None \<Rightarrow> [] | Some v \<Rightarrow> [IU_amount v]) @
     (case iu_status payload of None \<Rightarrow> [] | Some v \<Rightarrow> [IU_status v]) @
     (case iu_issued_date payload of None \<Rightarrow> [] | Some v \<Rightarrow> [IU_issued_date v]) @
     (case iu_due_date payload of None \<Rightarrow> [] | Some v \<Rightarrow> [IU_due_date v]) @
     (case iu_shoot_id payload of None \<Rightarrow> [] | Some v \<Rightarrow> [IU_shoot_id v]) @
     (case iu_package_id payload of None \<Rightarrow> [] | Some v \<Rightarrow> [IU_package_id v])"

fun invoice_setattr :: "invoice_item \<Rightarrow> invoice \<Rightarrow> error + invoice" where
  "invoice_setattr (IU_amount v) i =
     (case v of None \<Rightarrow> Inl IntegrityError | Some x \<Rightarrow> Inr (i\<lparr>invoice_amount := x\<rparr>))"
| "invoice_setattr (IU_status v) i =
     (case v of None \<Rightarrow> Inl IntegrityError | Some x \<Rightarrow> Inr (i\<lparr>invoice_status := x\<rparr>))"
| "invoice_setattr (IU_issued_date v) i =
     (case v of None \<Rightarrow> Inl IntegrityError | Some x \<Rightarrow> Inr (i\<lparr>invoice_issued_date := x\<rparr>))"
| "invoice_setattr (IU_due_date v) i = Inr (i\<lparr>invoice_due_date := v\<rparr>)"
| "invoice_setattr (IU_shoot_id v) i = Inr (i\<lparr>invoice_shoot_id := v\<rparr>)"
| "invoice_setattr (IU_package_id v) i = Inr (i\<lparr>invoice_package_id := v\<rparr>)"

definition create_invoice :: "invoice_create \<Rightarrow> db \<Rightarrow> error + (db \<times> invoice)" where
  "create_invoice payload d =
     (if first (filter (\<lambda>c. client_id c = ic_client_id payload) (clients d)) = None then
        Inl (HTTPException 400 ''Client does not exist'')
      else if (case ic_shoot_id payload of
                 None \<Rightarrow> False
               | Some s \<Rightarrow> first (filter (\<lambda>x. shoot_id x = s) (shoots d)) = None) then
        Inl (HTTPException 400 ''Shoot does not exist'')
      else if (case ic_package_id payload of
                 None \<Rightarrow> False
               | Some k \<Rightarrow> first (filter (\<lambda>x. package_id x = k) (packages d)) = None) then
        Inl (HTTPException 400 ''Package does not exist'')
      else
        let i = \<lparr> invoice_id = next_id (map invoice_id (invoices d)),
                  invoice_client_id = ic_client_id payload,
                  invoice_shoot_id = ic_shoot_id payload,
                  invoice_package_id = ic_package_id payload,
                  invoice_amount = ic_amount payload,
                  invoice_status = coalesce (ic_status payload) ''draft'',
                  invoice_issued_date = ic_issued_date payload,
                  invoice_due_date = ic_due_date payload \<rparr>
        in Inr (d\<lparr>invoices := invoices d @ [i]\<rparr>, i))"

text \<open>\<^verbatim>\<open>if date_from: q = q.filter(Invoice.issued_date >= date_from)\<close>, and the same for \<^verbatim>\<open>date_to\<close>.\<close>

definition issued_in :: "date option \<Rightarrow> date option \<Rightarrow> invoice \<Rightarrow> bool" where
  "issued_in date_from date_to i =
     ((case date_from of None \<Rightarrow> True | Some f \<Rightarrow> f \<le> invoice_issued_date i) \<and>
      (case date_to of None \<Rightarrow> True | Some t \<Rightarrow> invoice_issued_date i \<le> t))"

definition list_invoices ::
  "int option \<Rightarrow> int option \<Rightarrow> date option \<Rightarrow> date option \<Rightarrow> db \<Rightarrow> error + invoice list" where
  "list_invoices skip limit date_from date_to d =
     (case query_skip_limit skip limit of
        Inl e \<Rightarrow> Inl e
      | Inr (s, l) \<Rightarrow>
          Inr (offset_limit s l
                 (order_by_desc (\<lambda>i. (invoice_issued_date i, invoice_id i))
                    (filter (issued_in date_from date_to) (invoices d)))))"

definition update_invoice :: "int \<Rightarrow> invoice_update \<Rightarrow> db \<Rightarrow> error + (db \<times> invoice)" where
  "update_invoice iid payload d =
     (if iid < 1 then Inl RequestValidationError
      else
        case get_invoice_or_404 d iid of
          Inl e \<Rightarrow> Inl e
        | Inr obj \<Rightarrow>
            if (case iu_shoot_id payload of
                  Some (Some s) \<Rightarrow> first (filter (\<lambda>x. shoot_id x = s) (shoots d)) = None
                | _ \<Rightarrow> False) then
              Inl (HTTPException 400 ''Shoot does not exist'')
            else if (case iu_package_id payload of
                       Some (Some k) \<Rightarrow> first (filter (\<lambda>x. package_id x = k) (packages d)) = None
                     | _ \<Rightarrow> False) then
              Inl (HTTPException 400 ''Package does not exist'')
            else
              (case setattr_all invoice_setattr (invoice_update_dump payload) obj of
                 Inl e \<Rightarrow> Inl e
               | Inr obj' \<Rightarrow>
                   Inr (d\<lparr>invoices :=
                          map (\<lambda>i. if invoice_id i = invoice_id obj then obj' else i) (invoices d)\<rparr>,
                        obj')))"

text \<open>\<open>delete_invoice\<close>: \<^verbatim>\<open>Invoice.payments\<close> is \<^verbatim>\<open>cascade="all, delete-orphan"\<close>.\<close>

definition delete_invoice :: "int \<Rightarrow> db \<Rightarrow> error + db" where
  "delete_invoice iid d =
     (if iid < 1 then Inl RequestValidationError
      else
        case get_invoice_or_404 d iid of
          Inl e \<Rightarrow> Inl e
        | Inr obj \<Rightarrow>
            Inr (d\<lparr>invoices := filter (\<lambda>i. invoice_id i \<noteq> invoice_id obj) (invoices d),
                   payments :=
                     filter (\<lambda>p. payment_invoice_id p \<noteq> invoice_id obj) (payments d)\<rparr>))"

section \<open>Response schemas built by keyword (app/schemas.py)\<close>

text \<open>
  \<^verbatim>\<open>InvoiceSummary(...)\<close> and \<^verbatim>\<open>ReportInvoiceRow(...)\<close> are called with keyword
  arguments. The constructor of a schema reads each declared field from the keywords by
  its name: a field without a default that no keyword names is an error, a keyword that
  names no field is ignored, and all the fields in error are reported together.
\<close>

datatype pyval = PyNone | PyInt int | PyDecimal money | PyStr string | PyDate date

type_synonym kwargs = "(string \<times> pyval) list"

definition field_int :: "kwargs \<Rightarrow> string \<Rightarrow> int option" where
  "field_int kw f = (case map_of kw f of Some (PyInt n) \<Rightarrow> Some n | _ \<Rightarrow> None)"

definition field_str :: "kwargs \<Rightarrow> string \<Rightarrow> string option" where
  "field_str kw f = (case map_of kw f of Some (PyStr x) \<Rightarrow> Some x | _ \<Rightarrow> None)"

definition field_date :: "kwargs \<Rightarrow> string \<Rightarrow> date option" where
  "field_date kw f = (case map_of kw f of Some (PyDate x) \<Rightarrow> Some x | _ \<Rightarrow> None)"

definition field_decimal :: "kwargs \<Rightarrow> string \<Rightarrow> money option" where
  "field_decimal kw f =
     (case map_of kw f of
        Some (PyDecimal x) \<Rightarrow> Some x
      | Some (PyInt n) \<Rightarrow> Some (of_int n)
      | _ \<Rightarrow> None)"

text \<open>\<^verbatim>\<open>Optional[str] = None\<close>: the field may be left out or null.\<close>

definition field_opt_str :: "kwargs \<Rightarrow> string \<Rightarrow> string option option" where
  "field_opt_str kw f =
     (case map_of kw f of
        None \<Rightarrow> Some None
      | Some PyNone \<Rightarrow> Some None
      | Some (PyStr x) \<Rightarrow> Some (Some x)
      | _ \<Rightarrow> None)"

definition in_error :: "'a option \<Rightarrow> string \<Rightarrow> string list" where
  "in_error v f = (case v of None \<Rightarrow> [f] | Some _ \<Rightarrow> [])"

record invoice_summary =
  summary_invoice_id :: int
  summary_amount :: money
  summary_total_paid :: money
  summary_balance :: money
  summary_status :: string

definition InvoiceSummary :: "kwargs \<Rightarrow> error + invoice_summary" where
  "InvoiceSummary kw =
     (case (field_int kw ''invoice_id'', field_decimal kw ''amount'',
            field_decimal kw ''total_paid'', field_decimal kw ''balance'',
            field_str kw ''status'') of
        (Some i, Some a, Some t, Some b, Some s) \<Rightarrow>
          Inr \<lparr> summary_invoice_id = i, summary_amount = a, summary_total_paid = t,
                summary_balance = b, summary_status = s \<rparr>
      | _ \<Rightarrow>
          Inl (ValidationError
            (in_error (field_int kw ''invoice_id'') ''invoice_id'' @
             in_error (field_decimal kw ''amount'') ''amount'' @
             in_error (field_decimal kw ''total_paid'') ''total_paid'' @
             in_error (field_decimal kw ''balance'') ''balance'' @
             in_error (field_str kw ''status'') ''status'')))"

record report_invoice_row =
  row_client_name :: string
  row_package_name :: "string option"
  row_invoice_amount :: money
  row_total_paid :: money
  row_balance :: money
  row_shoot_location :: "string option"
  row_payment_status :: string
  row_invoice_id :: int
  row_issued_date :: date

definition ReportInvoiceRow :: "kwargs \<Rightarrow> error + report_invoice_row" where
  "ReportInvoiceRow kw =
     (case (field_str kw ''client_name'', field_opt_str kw ''package_name'',
            field_decimal kw ''invoice_amount'', field_decimal kw ''total_paid'',
            field_decimal kw ''balance'', field_opt_str kw ''shoot_location'',
            field_str kw ''payment_status'', field_int kw ''invoice_id'',
            field_date kw ''issued_date'') of
        (Some cn, Some pn, Some ia, Some tp, Some b, Some sl, Some ps, Some i, Some dt) \<Rightarrow>
          Inr \<lparr> row_client_name = cn, row_package_name = pn, row_invoice_amount = ia,
                row_total_paid = tp, row_balance = b, row_shoot_location = sl,
                row_payment_status = ps, row_invoice_id = i, row_issued_date = dt \<rparr>
      | _ \<Rightarrow>
          Inl (ValidationError
            (in_error (field_str kw ''client_name'') ''client_name'' @
             in_error (field_opt_str kw ''package_name'') ''package_name'' @
             in_error (field_decimal kw ''invoice_amount'') ''invoice_amount'' @
             in_error (field_decimal kw ''total_paid'') ''total_paid'' @
             in_error (field_decimal kw ''balance'') ''balance'' @
             in_error (field_opt_str kw ''shoot_location'') ''shoot_location'' @
             in_error (field_str kw ''payment_status'') ''payment_status'' @
             in_error (field_int kw ''invoice_id'') ''invoice_id'' @
             in_error (field_date kw ''issued_date'') ''issued_date'')))"

definition py_opt :: "('a \<Rightarrow> pyval) \<Rightarrow> 'a option \<Rightarrow> pyval" where
  "py_opt f v = (case v of None \<Rightarrow> PyNone | Some x \<Rightarrow> f x)"

section \<open>Invoice summary (app/routers/invoices.py)\<close>

definition get_invoice_summary :: "int \<Rightarrow> db \<Rightarrow> error + invoice_summary" where
  "get_invoice_summary iid d =
     (if iid < 1 then Inl RequestValidationError
      else
        case get_invoice_or_404 d iid of
          Inl e \<Rightarrow> Inl e
        | Inr invoice \<Rightarrow>
            let total_paid = total_paid_of d (invoice_id invoice);
                balance = invoice_amount invoice - total_paid;
                status =
                  (if balance = 0 then ''paid''
                   else if 0 < total_paid \<and> total_paid < invoice_amount invoice then ''partial''
                   else ''unpaid'')
            in InvoiceSummary
                 [(''invoice_id'', PyInt (invoice_id invoice)),
                  (''amount'', PyDecimal (invoice_amount invoice)),
                  (''total_paid'', PyDecimal total_paid),
                  (''balance'', PyDecimal balance),
                  (''status'', PyStr status)])"

section \<open>Invoice report (app/routers/reports.py)\<close>

text \<open>
  A row of the joined query: invoices joined with their client (inner join), with their
  package's name (outer join: null without a package) and with their payments (outer
  join), grouped by invoice, \<^verbatim>\<open>coalesce(sum(pay.amount), 0)\<close> per group.
\<close>

record report_query_row =
  q_invoice_id :: int
  q_issued_date :: date
  q_due_date :: "date option"
  q_client_name :: string
  q_package_name :: "string option"
  q_amount :: money
  q_total_paid :: money

definition report_query :: "date option \<Rightarrow> date option \<Rightarrow> db \<Rightarrow> report_query_row list" where
  "report_query date_from date_to d =
     order_by_desc (\<lambda>r. (q_issued_date r, q_invoice_id r))
       (concat (map (\<lambda>i.
          concat (map (\<lambda>c.
            map (\<lambda>pn.
                  \<lparr> q_invoice_id = invoice_id i,
                    q_issued_date = invoice_issued_date i,
                    q_due_date = invoice_due_date i,
                    q_client_name = client_name c,
                    q_package_name = pn,
                    q_amount = invoice_amount i,
                    q_total_paid =
                      coalesce (sql_sum (map payment_amount
                        (filter (\<lambda>p. payment_invoice_id p = invoice_id i) (payments d)))) 0 \<rparr>)
              (case filter (\<lambda>k. Some (package_id k) = invoice_package_id i) (packages d) of
                 [] \<Rightarrow> [None]
               | ks \<Rightarrow> map (\<lambda>k. Some (package_name k)) ks))
            (filter (\<lambda>c. client_id c = invoice_client_id i) (clients d))))
          (filter (issued_in date_from date_to) (invoices d))))"

text \<open>The body of the loop over the rows (\<^verbatim>\<open>x or 0\<close> is \<open>x\<close> for a number \<open>x\<close>).\<close>

definition report_row :: "report_query_row \<Rightarrow> error + report_invoice_row" where
  "report_row r =
     (let total_paid = q_total_paid r;
          amount = q_amount r;
          balance = amount - total_paid;
          status =
            (if balance = 0 then ''paid''
             else if 0 < total_paid \<and> total_paid < amount then ''partial''
             else ''unpaid'')
      in ReportInvoiceRow
           [(''invoice_id'', PyInt (q_invoice_id r)),
            (''issued_date'', PyDate (q_issued_date r)),
            (''due_date'', py_opt PyDate (q_due_date r)),
            (''client_name'', PyStr (q_client_name r)),
            (''package_name'', py_opt PyStr (q_package_name r)),
            (''amount'', PyDecimal amount),
            (''total_paid'', PyDecimal total_paid),
            (''balance'', PyDecimal balance),
            (''status'', PyStr status)])"

text \<open>\<^verbatim>\<open>for r in rows: results.append(...)\<close>: the first row that raises ends the loop.\<close>

fun append_each :: "('a \<Rightarrow> error + 'b) \<Rightarrow> 'a list \<Rightarrow> error + 'b list" where
  "append_each f [] = Inr []"
| "append_each f (r # rows) =
     (case f r of
        Inl e \<Rightarrow> Inl e
      | Inr x \<Rightarrow> (case append_each f rows of Inl e \<Rightarrow> Inl e | Inr xs \<Rightarrow> Inr (x # xs)))"

definition report_invoices :: "date option \<Rightarrow> date option \<Rightarrow> db \<Rightarrow> error + report_invoice_row list" where
  "report_invoices date_from date_to d = append_each report_row (report_query date_from date_to d)"

section \<open>Sequences of requests (the routes registered in app/main.py)\<close>

datatype request =
    Create_payment datetime payment_create
  | Delete_payment int
  | Create_invoice invoice_create
  | Update_invoice int invoice_update

text \<open>A request that raises leaves the store as it was: nothing was committed.\<close>

fun handle :: "request \<Rightarrow> db \<Rightarrow> db" where
  "handle (Create_payment now payload) d =
     (case create_payment now payload d of Inl e \<Rightarrow> d | Inr (d', pay) \<Rightarrow> d')"
| "handle (Delete_payment pid) d =
     (case delete_payment pid d of Inl e \<Rightarrow> d | Inr d' \<Rightarrow> d')"
| "handle (Create_invoice payload) d =
     (case create_invoice payload d of Inl e \<Rightarrow> d | Inr (d', i) \<Rightarrow> d')"
| "handle (Update_invoice iid payload) d =
     (case update_invoice iid payload d of Inl e \<Rightarrow> d | Inr (d', i) \<Rightarrow> d')"

fun run :: "request list \<Rightarrow> db \<Rightarrow> db" where
  "run [] d = d"
| "run (r # rs) d = run rs (handle r d)"

section \<open>The notions of the specification\<close>




text \<open>The specification's \<open>DuplicateEmail\<close>: the conflict response, with its message.\<close>

definition DuplicateEmail :: "string \<Rightarrow> error" where
  "DuplicateEmail detail = HTTPException 409 detail"

text \<open>The specification's P: the sum of the amounts of an invoice's payments.\<close>

definition paid_sum :: "db \<Rightarrow> int \<Rightarrow> money" where
  "paid_sum d iid = (\<Sum>p \<leftarrow> filter (\<lambda>p. payment_invoice_id p = iid) (payments d). payment_amount p)"


definition unique_invoice_ids :: "db \<Rightarrow> bool" where
  "unique_invoice_ids d = distinct (map invoice_id (invoices d))"

text \<open>The specification's status thresholds (4.1), from an amount \<open>A\<close> and a paid total \<open>P\<close>.\<close>

definition spec_status :: "money \<Rightarrow> money \<Rightarrow> string" where
  "spec_status A P =
     (if A - P = 0 then ''paid'' else if 0 < P \<and> P < A then ''partial'' else ''unpaid'')"

text \<open>
  The specification's partial update of one field: a payload that leaves the field out
  keeps the old value, one that sets it gives the new one.
\<close>

definition patched :: "'a option \<Rightarrow> 'a \<Rightarrow> 'a" where
  "patched v old = (case v of None \<Rightarrow> old | Some x \<Rightarrow> x)"





text \<open>
  The specification's orders of a list, as relations between a row and a later row, and
  its page: \<open>skip\<close> rows left out, then at most \<open>limit\<close> rows, with the defaults
  \<open>0\<close> and \<open>50\<close>; \<open>skip\<close> is at least \<open>0\<close> and \<open>limit\<close> from \<open>1\<close> to \<open>200\<close>.
\<close>

definition id_ascending :: "('a \<Rightarrow> int) \<Rightarrow> 'a \<Rightarrow> 'a \<Rightarrow> bool" where
  "id_ascending ident a b = (ident a \<le> ident b)"

definition id_descending :: "('a \<Rightarrow> int) \<Rightarrow> 'a \<Rightarrow> 'a \<Rightarrow> bool" where
  "id_descending ident a b = (ident b \<le> ident a)"

definition newest_first :: "('a \<Rightarrow> int) \<Rightarrow> ('a \<Rightarrow> int) \<Rightarrow> 'a \<Rightarrow> 'a \<Rightarrow> bool" where
  "newest_first day ident a b = (day b < day a \<or> (day b = day a \<and> ident b \<le> ident a))"

definition page_of :: "'a list \<Rightarrow> int option \<Rightarrow> int option \<Rightarrow> 'a list" where
  "page_of rows skip limit = take (nat (coalesce limit 50)) (drop (nat (coalesce skip 0)) rows)"

definition valid_page :: "int option \<Rightarrow> int option \<Rightarrow> bool" where
  "valid_page skip limit =
     (0 \<le> coalesce skip 0 \<and> 1 \<le> coalesce limit 50 \<and> coalesce limit 50 \<le> 200)"





text \<open>The requests that submit a payment.\<close>

fun payment_creation :: "request \<Rightarrow> bool" where
  "payment_creation (Create_payment now payload) = True"
| "payment_creation r = False"

section \<open>Concrete stores and requests\<close>

text \<open>
  Two clients, a shoot of the first, one package, two invoices and two payments. The
  second invoice is the second client's and refers to the first client's shoot; the
  first payment was made after the second.
\<close>

definition studio :: db where
  "studio =
     \<lparr> clients =
         [\<lparr> client_id = 1, client_name = ''Ana'', client_email = ''ana@x.io'', client_phone = None \<rparr>,
          \<lparr> client_id = 2, client_name = ''Ben'', client_email = ''ben@x.io'', client_phone = Some ''555'' \<rparr>],
       shoots =
         [\<lparr> shoot_id = 1, shoot_client_id = 1, shoot_date = 5, shoot_location = Some ''Park'' \<rparr>],
       packages =
         [\<lparr> package_id = 1, package_name = ''Basic'', package_description = None,
            package_price = 100, package_is_active = True \<rparr>],
       invoices =
         [\<lparr> invoice_id = 1, invoice_client_id = 1, invoice_shoot_id = Some 1,
            invoice_package_id = Some 1, invoice_amount = 100, invoice_status = ''draft'',
            invoice_issued_date = 10, invoice_due_date = None \<rparr>,
          \<lparr> invoice_id = 2, invoice_client_id = 2, invoice_shoot_id = Some 1,
            invoice_package_id = None, invoice_amount = 50, invoice_status = ''sent'',
            invoice_issued_date = 20, invoice_due_date = Some 30 \<rparr>],
       payments =
         [\<lparr> payment_id = 1, payment_invoice_id = 1, payment_amount = 60,
            payment_method = Some ''card'', payment_paid_at = 20 \<rparr>,
          \<lparr> payment_id = 2, payment_invoice_id = 2, payment_amount = 10,
            payment_method = None, payment_paid_at = 10 \<rparr>] \<rparr>"

text \<open>The store \<open>studio\<close> with a third invoice, for nothing, that has no payment.\<close>

definition gratis :: db where
  "gratis =
     studio\<lparr>invoices := invoices studio @
       [\<lparr> invoice_id = 3, invoice_client_id = 2, invoice_shoot_id = None,
          invoice_package_id = None, invoice_amount = 0, invoice_status = ''draft'',
          invoice_issued_date = 20, invoice_due_date = None \<rparr>]\<rparr>"


text \<open>Payments of 40 and of 60 for invoice 1, and an invoice of 100 for client 1.\<close>

definition pay40 :: payment_create where
  "pay40 = \<lparr> pc_invoice_id = 1, pc_amount = 40, pc_method = None, pc_paid_at = None \<rparr>"



text \<open>An invoice for the second client that names the first client's shoot.\<close>

definition cross_invoice :: invoice_create where
  "cross_invoice =
     \<lparr> ic_client_id = 2, ic_amount = 75, ic_issued_date = 25, ic_status = None,
       ic_due_date = None, ic_shoot_id = Some 1, ic_package_id = None \<rparr>"

text \<open>
  Update payloads: an email set to the one the first client has, a phone set to null, a
  new place for a shoot, a new price, an invoice marked as sent, and an invoice whose
  amount is set to 50 and to 60.
\<close>

definition same_email :: client_update where
  "same_email = \<lparr> cu_name = None, cu_email = Some (Some ''ana@x.io''), cu_phone = Some None \<rparr>"







section \<open>Properties\<close>

lemma total_paid_of_eq: "total_paid_of d iid = paid_sum d iid"
  by (simp add: total_paid_of_def paid_sum_def coalesce_def sql_sum_def)

lemma first_filter_None: "first (filter P xs) = None \<longleftrightarrow> (\<forall>x \<in> set xs. \<not> P x)"
  by (induction xs) (auto simp: first_def)

lemma first_filter_Some: "first (filter P xs) = Some x \<Longrightarrow> x \<in> set xs \<and> P x"
  by (induction xs) (auto simp: first_def split: if_splits)

lemma first_filter_unique:
  "distinct (map f xs) \<Longrightarrow> x \<in> set xs \<Longrightarrow> first (filter (\<lambda>y. f y = f x) xs) = Some x"
  by (induction xs) (auto simp: first_def)

subsection \<open>Payment acceptance\<close>


lemma get_invoice_or_404_found:
  "unique_invoice_ids d \<Longrightarrow> i \<in> set (invoices d) \<Longrightarrow> get_invoice_or_404 d (invoice_id i) = Inr i"
  using first_filter_unique [of invoice_id "invoices d" i]
  by (simp add: get_invoice_or_404_def unique_invoice_ids_def)









subsection \<open>Invoice summary\<close>

lemma paid_sum_none:
  "filter (\<lambda>p. payment_invoice_id p = iid) (payments d) = [] \<Longrightarrow> paid_sum d iid = 0"
  by (simp add: paid_sum_def)

lemma InvoiceSummary_given:
  "InvoiceSummary [(''invoice_id'', PyInt n), (''amount'', PyDecimal a),
       (''total_paid'', PyDecimal t), (''balance'', PyDecimal b), (''status'', PyStr s)] =
     Inr \<lparr> summary_invoice_id = n, summary_amount = a, summary_total_paid = t,
           summary_balance = b, summary_status = s \<rparr>"
  by (simp add: InvoiceSummary_def field_int_def field_decimal_def field_str_def)

text \<open>
  C3. For an invoice of the store with amount \<open>A\<close> and payments summing to \<open>P\<close> (\<open>0\<close>
  without payments), the summary returns \<open>total_paid = P\<close>, \<open>balance = A - P\<close> and the
  status "paid" if the balance is \<open>0\<close>, "partial" if \<open>0 < P < A\<close> and "unpaid" otherwise;
  with \<open>A = 0\<close> and \<open>P = 0\<close> the balance is \<open>0\<close> and the status "paid". Invoice ids are the
  primary key and are assigned from \<open>1\<close>.
\<close>

theorem get_invoice_summary_derivation:
  assumes "unique_invoice_ids d" and "i \<in> set (invoices d)" and "1 \<le> invoice_id i"
  shows "get_invoice_summary (invoice_id i) d =
           Inr \<lparr> summary_invoice_id = invoice_id i,
                 summary_amount = invoice_amount i,
                 summary_total_paid = paid_sum d (invoice_id i),
                 summary_balance = invoice_amount i - paid_sum d (invoice_id i),
                 summary_status = spec_status (invoice_amount i) (paid_sum d (invoice_id i)) \<rparr> \<and>
         (filter (\<lambda>p. payment_invoice_id p = invoice_id i) (payments d) = [] \<longrightarrow>
            paid_sum d (invoice_id i) = 0) \<and>
         (invoice_amount i = 0 \<and> paid_sum d (invoice_id i) = 0 \<longrightarrow>
            (\<exists>s. get_invoice_summary (invoice_id i) d = Inr s \<and>
                 summary_balance s = 0 \<and> summary_status s = ''paid''))"
proof -
  have found: "get_invoice_or_404 d (invoice_id i) = Inr i"
    using assms(1,2) by (rule get_invoice_or_404_found)
  have summary: "get_invoice_summary (invoice_id i) d =
           Inr \<lparr> summary_invoice_id = invoice_id i,
                 summary_amount = invoice_amount i,
                 summary_total_paid = paid_sum d (invoice_id i),
                 summary_balance = invoice_amount i - paid_sum d (invoice_id i),
                 summary_status = spec_status (invoice_amount i) (paid_sum d (invoice_id i)) \<rparr>"
    using assms(3) found
    by (simp add: get_invoice_summary_def total_paid_of_eq Let_def InvoiceSummary_given
        spec_status_def)
  show ?thesis
    using summary by (simp add: paid_sum_none spec_status_def)
qed

theorem get_invoice_summary_derivation_witness:
  "get_invoice_summary 1 gratis =
     Inr \<lparr> summary_invoice_id = 1, summary_amount = 100, summary_total_paid = 60,
           summary_balance = 40, summary_status = ''partial'' \<rparr> \<and>
   get_invoice_summary 3 gratis =
     Inr \<lparr> summary_invoice_id = 3, summary_amount = 0, summary_total_paid = 0,
           summary_balance = 0, summary_status = ''paid'' \<rparr>"
proof -
  have u: "unique_invoice_ids gratis"
    by (simp add: unique_invoice_ids_def gratis_def studio_def)
  have m1: "invoices gratis ! 0 \<in> set (invoices gratis)"
    and m3: "invoices gratis ! 2 \<in> set (invoices gratis)"
    by (simp_all add: gratis_def studio_def)
  have g1: "1 \<le> invoice_id (invoices gratis ! 0)" and g3: "1 \<le> invoice_id (invoices gratis ! 2)"
    by (simp_all add: gratis_def studio_def)
  show ?thesis
    using get_invoice_summary_derivation [OF u m1 g1] get_invoice_summary_derivation [OF u m3 g3]
    by (simp add: gratis_def studio_def paid_sum_def spec_status_def)
qed

subsection \<open>Payments leave the invoice rows alone\<close>

lemma create_payment_frame:
  "create_payment now p d = Inr (d', pay) \<Longrightarrow>
     invoices d' = invoices d \<and> clients d' = clients d \<and> shoots d' = shoots d \<and>
     packages d' = packages d"
  by (auto simp: create_payment_def Let_def split: if_splits sum.splits)

lemma handle_payment_creation_invoices:
  "payment_creation r \<Longrightarrow> invoices (handle r d) = invoices d"
  by (cases r) (auto split: sum.splits dest: create_payment_frame)

lemma run_payment_creations_invoices:
  "list_all payment_creation rs \<Longrightarrow> invoices (run rs d) = invoices d"
  by (induction rs arbitrary: d) (simp_all add: handle_payment_creation_invoices)

lemma create_invoice_default_status:
  "create_invoice q d = Inr (d', i) \<Longrightarrow> ic_status q = None \<Longrightarrow> invoice_status i = ''draft''"
  by (auto simp: create_invoice_def coalesce_def Let_def split: if_splits)

text \<open>
  C10. An accepted payment does not modify the invoice rows: the store after
  \<open>create_payment\<close> has the invoices it had, so every stored \<open>invoice_status\<close> (free text,
  "draft" when the invoice was created without one) keeps its value, also after any
  sequence of payment submissions. The derived paid/partial/unpaid status is a field of
  the values \<open>get_invoice_summary\<close> and \<open>report_invoices\<close> return; neither returns a
  store.
\<close>

theorem create_payment_keeps_invoices:
  "(create_payment now p d = Inr (d', pay) \<longrightarrow> invoices d' = invoices d) \<and>
   (list_all payment_creation rs \<longrightarrow>
      invoices (run rs d) = invoices d \<and>
      map invoice_status (invoices (run rs d)) = map invoice_status (invoices d)) \<and>
   (create_invoice q d = Inr (dq, i) \<and> ic_status q = None \<longrightarrow> invoice_status i = ''draft'')"
  using create_payment_frame [of now p d d' pay] run_payment_creations_invoices [of rs d]
    create_invoice_default_status [of q d dq i]
  by auto

theorem create_payment_keeps_invoices_witness:
  "create_payment 7 pay40 studio =
     Inr (studio\<lparr>payments := payments studio @
            [\<lparr> payment_id = 3, payment_invoice_id = 1, payment_amount = 40,
               payment_method = None, payment_paid_at = 7 \<rparr>]\<rparr>,
          \<lparr> payment_id = 3, payment_invoice_id = 1, payment_amount = 40,
            payment_method = None, payment_paid_at = 7 \<rparr>) \<and>
   invoices (run [Create_payment 7 pay40, Create_payment 8 (pay40\<lparr>pc_invoice_id := 2\<rparr>)] studio) =
     invoices studio \<and>
   map invoice_status
     (invoices (run [Create_payment 7 pay40, Create_payment 8 (pay40\<lparr>pc_invoice_id := 2\<rparr>)] studio)) =
     [''draft'', ''sent''] \<and>
   map payment_id
     (payments (run [Create_payment 7 pay40, Create_payment 8 (pay40\<lparr>pc_invoice_id := 2\<rparr>)] studio)) =
     [1, 2, 3, 4] \<and>
   create_invoice cross_invoice studio =
     Inr (studio\<lparr>invoices := invoices studio @
            [\<lparr> invoice_id = 3, invoice_client_id = 2, invoice_shoot_id = Some 1,
               invoice_package_id = None, invoice_amount = 75, invoice_status = ''draft'',
               invoice_issued_date = 25, invoice_due_date = None \<rparr>]\<rparr>,
          \<lparr> invoice_id = 3, invoice_client_id = 2, invoice_shoot_id = Some 1,
            invoice_package_id = None, invoice_amount = 75, invoice_status = ''draft'',
            invoice_issued_date = 25, invoice_due_date = None \<rparr>)"
proof -
  have c: "create_payment 7 pay40 studio =
     Inr (studio\<lparr>payments := payments studio @
            [\<lparr> payment_id = 3, payment_invoice_id = 1, payment_amount = 40,
               payment_method = None, payment_paid_at = 7 \<rparr>]\<rparr>,
          \<lparr> payment_id = 3, payment_invoice_id = 1, payment_amount = 40,
            payment_method = None, payment_paid_at = 7 \<rparr>)"
    by (simp add: create_payment_def get_invoice_or_404_def first_def total_paid_of_def
        sql_sum_def coalesce_def next_id_def pay40_def studio_def Let_def)
  have s: "map invoice_status (invoices studio) = [''draft'', ''sent'']"
    by (simp add: studio_def)
  have p: "map payment_id
     (payments (run [Create_payment 7 pay40, Create_payment 8 (pay40\<lparr>pc_invoice_id := 2\<rparr>)] studio)) =
     [1, 2, 3, 4]"
    by (simp add: create_payment_def get_invoice_or_404_def first_def total_paid_of_def
        sql_sum_def coalesce_def next_id_def pay40_def studio_def Let_def)
  have q: "create_invoice cross_invoice studio =
     Inr (studio\<lparr>invoices := invoices studio @
            [\<lparr> invoice_id = 3, invoice_client_id = 2, invoice_shoot_id = Some 1,
               invoice_package_id = None, invoice_amount = 75, invoice_status = ''draft'',
               invoice_issued_date = 25, invoice_due_date = None \<rparr>]\<rparr>,
          \<lparr> invoice_id = 3, invoice_client_id = 2, invoice_shoot_id = Some 1,
            invoice_package_id = None, invoice_amount = 75, invoice_status = ''draft'',
            invoice_issued_date = 25, invoice_due_date = None \<rparr>)"
    by (simp add: create_invoice_def cross_invoice_def first_def next_id_def coalesce_def
        studio_def Let_def)
  show ?thesis
    using create_payment_keeps_invoices
      [where now = 7 and p = pay40 and d = studio
         and d' = "studio\<lparr>payments := payments studio @
            [\<lparr> payment_id = 3, payment_invoice_id = 1, payment_amount = 40,
               payment_method = None, payment_paid_at = 7 \<rparr>]\<rparr>"
         and pay = "\<lparr> payment_id = 3, payment_invoice_id = 1, payment_amount = 40,
            payment_method = None, payment_paid_at = 7 \<rparr>"
         and rs = "[Create_payment 7 pay40, Create_payment 8 (pay40\<lparr>pc_invoice_id := 2\<rparr>)]"
         and q = cross_invoice
         and dq = "studio\<lparr>invoices := invoices studio @
            [\<lparr> invoice_id = 3, invoice_client_id = 2, invoice_shoot_id = Some 1,
               invoice_package_id = None, invoice_amount = 75, invoice_status = ''draft'',
               invoice_issued_date = 25, invoice_due_date = None \<rparr>]\<rparr>"
         and i = "\<lparr> invoice_id = 3, invoice_client_id = 2, invoice_shoot_id = Some 1,
            invoice_package_id = None, invoice_amount = 75, invoice_status = ''draft'',
            invoice_issued_date = 25, invoice_due_date = None \<rparr>"]
      c s p q
    by simp
qed

subsection \<open>Invoice report\<close>

lemma ReportInvoiceRow_without_amount:
  "field_decimal kw ''invoice_amount'' = None \<Longrightarrow>
   ReportInvoiceRow kw =
     Inl (ValidationError
            (in_error (field_str kw ''client_name'') ''client_name'' @
             in_error (field_opt_str kw ''package_name'') ''package_name'' @
             in_error (field_decimal kw ''invoice_amount'') ''invoice_amount'' @
             in_error (field_decimal kw ''total_paid'') ''total_paid'' @
             in_error (field_decimal kw ''balance'') ''balance'' @
             in_error (field_opt_str kw ''shoot_location'') ''shoot_location'' @
             in_error (field_str kw ''payment_status'') ''payment_status'' @
             in_error (field_int kw ''invoice_id'') ''invoice_id'' @
             in_error (field_date kw ''issued_date'') ''issued_date''))"
  unfolding ReportInvoiceRow_def by (simp split: option.split)

lemma report_row_raises:
  "report_row r = Inl (ValidationError [''invoice_amount'', ''payment_status''])"
proof -
  define kw where "kw =
           [(''invoice_id'', PyInt (q_invoice_id r)),
            (''issued_date'', PyDate (q_issued_date r)),
            (''due_date'', py_opt PyDate (q_due_date r)),
            (''client_name'', PyStr (q_client_name r)),
            (''package_name'', py_opt PyStr (q_package_name r)),
            (''amount'', PyDecimal (q_amount r)),
            (''total_paid'', PyDecimal (q_total_paid r)),
            (''balance'', PyDecimal (q_amount r - q_total_paid r)),
            (''status'', PyStr
               (if q_amount r - q_total_paid r = 0 then ''paid''
                else if 0 < q_total_paid r \<and> q_total_paid r < q_amount r then ''partial''
                else ''unpaid''))]"
  have amount: "field_decimal kw ''invoice_amount'' = None"
    by (simp add: kw_def field_decimal_def)
  have status: "field_str kw ''payment_status'' = None"
    by (simp add: kw_def field_str_def)
  have name: "in_error (field_str kw ''client_name'') ''client_name'' = []"
    by (simp add: kw_def field_str_def in_error_def)
  have pkg: "in_error (field_opt_str kw ''package_name'') ''package_name'' = []"
    by (cases "q_package_name r") (simp_all add: kw_def field_opt_str_def in_error_def py_opt_def)
  have paid: "in_error (field_decimal kw ''total_paid'') ''total_paid'' = []"
    by (simp add: kw_def field_decimal_def in_error_def)
  have bal: "in_error (field_decimal kw ''balance'') ''balance'' = []"
    by (simp add: kw_def field_decimal_def in_error_def)
  have loc: "in_error (field_opt_str kw ''shoot_location'') ''shoot_location'' = []"
    by (simp add: kw_def field_opt_str_def in_error_def)
  have iid: "in_error (field_int kw ''invoice_id'') ''invoice_id'' = []"
    by (simp add: kw_def field_int_def in_error_def)
  have dt: "in_error (field_date kw ''issued_date'') ''issued_date'' = []"
    by (simp add: kw_def field_date_def in_error_def)
  have "report_row r = ReportInvoiceRow kw"
    by (simp add: report_row_def kw_def Let_def)
  also have "\<dots> = Inl (ValidationError [''invoice_amount'', ''payment_status''])"
    unfolding ReportInvoiceRow_without_amount [OF amount] name pkg paid bal loc iid dt
    by (simp add: amount status in_error_def)
  finally show ?thesis .
qed

lemma append_each_first_raises:
  "rows \<noteq> [] \<Longrightarrow> f (hd rows) = Inl e \<Longrightarrow> append_each f rows = Inl e"
  by (cases rows) simp_all

lemma report_invoices_raises:
  "report_query date_from date_to d \<noteq> [] \<Longrightarrow>
     report_invoices date_from date_to d =
       Inl (ValidationError [''invoice_amount'', ''payment_status''])"
  by (simp add: report_invoices_def append_each_first_raises report_row_raises)

text \<open>
  C4. The report is to give, for every invoice in the range, a row whose total paid,
  balance and status are those of the invoice's summary. \<open>report_invoices\<close> builds each
  row with the keywords \<^verbatim>\<open>amount\<close> and \<^verbatim>\<open>status\<close>, while the schema declares the
  required fields \<^verbatim>\<open>invoice_amount\<close> and \<^verbatim>\<open>payment_status\<close>: on the store \<open>studio\<close>,
  whose two invoices are both in the unbounded range, the report raises and returns no
  row, while the summary of invoice 1 is computed.
\<close>

theorem report_invoices_raises_on_studio:
  "report_invoices None None studio =
     Inl (ValidationError [''invoice_amount'', ''payment_status'']) \<and>
   get_invoice_summary 1 studio =
     Inr \<lparr> summary_invoice_id = 1, summary_amount = 100, summary_total_paid = 60,
           summary_balance = 40, summary_status = ''partial'' \<rparr>"
proof -
  have "length (report_query None None studio) = 2"
    by (simp add: report_query_def studio_def issued_in_def order_by_desc_def)
  then have q: "report_query None None studio \<noteq> []"
    by auto
  have s: "get_invoice_summary 1 studio =
     Inr \<lparr> summary_invoice_id = 1, summary_amount = 100, summary_total_paid = 60,
           summary_balance = 40, summary_status = ''partial'' \<rparr>"
    by (simp add: get_invoice_summary_def get_invoice_or_404_def first_def total_paid_of_def
        InvoiceSummary_given coalesce_def sql_sum_def Let_def studio_def)
  show ?thesis
    using report_invoices_raises [OF q] s by simp
qed

subsection \<open>Patch-style updates: what a loop of assignments does to one field\<close>

lemma setattr_all_frame:
  assumes "setattr_all f xs r = Inr r'"
    and "\<And>x a b. x \<in> set xs \<Longrightarrow> f x a = Inr b \<Longrightarrow> g b = g a"
  shows "g r' = g r"
  using assms
proof (induction xs arbitrary: r)
  case Nil
  then show ?case by simp
next
  case (Cons x xs)
  from Cons.prems(1) obtain r1 where r1: "f x r = Inr r1" and rest: "setattr_all f xs r1 = Inr r'"
    by (auto split: sum.splits)
  have "g r' = g r1"
    using rest Cons.prems(2) by (intro Cons.IH) auto
  moreover have "g r1 = g r"
    using r1 Cons.prems(2) by auto
  ultimately show ?case by simp
qed

lemma setattr_all_applied:
  assumes "setattr_all f xs r = Inr r'" and "x \<in> set xs"
    and "\<And>a b. f x a = Inr b \<Longrightarrow> g b = v"
    and "\<And>y a b. y \<in> set xs \<Longrightarrow> y \<noteq> x \<Longrightarrow> f y a = Inr b \<Longrightarrow> g b = g a"
  shows "g r' = v"
  using assms(1,2,4)
proof (induction xs arbitrary: r)
  case Nil
  then show ?case by simp
next
  case (Cons y ys)
  from Cons.prems(1) obtain r1 where r1: "f y r = Inr r1" and rest: "setattr_all f ys r1 = Inr r'"
    by (auto split: sum.splits)
  show ?case
  proof (cases "x \<in> set ys")
    case True
    show ?thesis
      using rest True Cons.prems(3) by (intro Cons.IH) auto
  next
    case False
    with Cons.prems(2) have xy: "y = x" by simp
    have "g r' = g r1"
      using rest False Cons.prems(3) by (intro setattr_all_frame [of f ys r1 r' g]) auto
    moreover have "g r1 = v"
      using r1 xy assms(3) by simp
    ultimately show ?thesis by simp
  qed
qed

lemma setattr_all_succeeds:
  assumes "\<And>x a. x \<in> set xs \<Longrightarrow> \<exists>b. f x a = Inr b"
  shows "\<exists>r'. setattr_all f xs r = Inr r'"
  using assms
proof (induction xs arbitrary: r)
  case Nil
  then show ?case by simp
next
  case (Cons x xs)
  then obtain r1 where "f x r = Inr r1"
    by (meson list.set_intros(1))
  moreover obtain r' where "setattr_all f xs r1 = Inr r'"
    using Cons by (meson list.set_intros(2))
  ultimately show ?case by simp
qed

lemma setattr_all_patched:
  assumes result: "setattr_all f xs r = Inr r'"
    and present: "\<And>v. pv = Some v \<Longrightarrow> item v \<in> set xs"
    and only: "\<And>w. item w \<in> set xs \<Longrightarrow> pv = Some w"
    and sets: "\<And>v a b. f (item v) a = Inr b \<Longrightarrow> g b = v"
    and others: "\<And>y a b. y \<in> set xs \<Longrightarrow> (\<forall>v. y \<noteq> item v) \<Longrightarrow> f y a = Inr b \<Longrightarrow> g b = g a"
  shows "g r' = patched pv (g r)"
proof (cases pv)
  case None
  have "g r' = g r"
  proof (rule setattr_all_frame [OF result])
    fix x a b
    assume x: "x \<in> set xs" and step: "f x a = Inr b"
    have "\<forall>v. x \<noteq> item v"
      using x only None by auto
    from others [OF x this step] show "g b = g a" .
  qed
  with None show ?thesis
    by (simp add: patched_def)
next
  case (Some v)
  have "g r' = v"
  proof (rule setattr_all_applied [OF result])
    show "item v \<in> set xs"
      using Some by (rule present)
  next
    fix a b
    assume "f (item v) a = Inr b"
    then show "g b = v"
      by (rule sets)
  next
    fix y a b
    assume y: "y \<in> set xs" and ne: "y \<noteq> item v" and step: "f y a = Inr b"
    have "\<forall>w. y \<noteq> item w"
    proof (intro allI notI)
      fix w
      assume "y = item w"
      with y only Some have "w = v" by auto
      with \<open>y = item w\<close> ne show False by simp
    qed
    from others [OF y this step] show "g b = g a" .
  qed
  with Some show ?thesis
    by (simp add: patched_def)
qed

lemma set_dump_item:
  "set (case v of None \<Rightarrow> [] | Some w \<Rightarrow> [item w]) = item ` set_option v"
  by (cases v) simp_all

subsection \<open>The fields of a patched client\<close>

lemma set_client_update_dump:
  "set (client_update_dump u) =
     CU_name ` set_option (cu_name u) \<union>
     CU_email ` set_option (cu_email u) \<union>
     CU_phone ` set_option (cu_phone u)"
  by (simp add: client_update_dump_def set_dump_item Un_assoc)



lemma client_email_patched:
  assumes "setattr_all client_setattr (client_update_dump u) c = Inr c'"
  shows "Some (client_email c') = patched (cu_email u) (Some (client_email c))"
proof (rule setattr_all_patched [OF assms, where item = CU_email and g = "\<lambda>r. Some (client_email r)"])
  fix y a b
  assume "y \<in> set (client_update_dump u)" and other: "\<forall>v. y \<noteq> CU_email v" and step: "client_setattr y a = Inr b"
  from other step show "Some (client_email b) = Some (client_email a)"
    by (cases y) (auto split: option.splits)
qed (auto simp: set_client_update_dump split: option.splits)


subsection \<open>The fields of a patched shoot\<close>






subsection \<open>The fields of a patched package\<close>







subsection \<open>The fields of a patched invoice\<close>










lemma client_patch_succeeds:
  assumes "cu_name u \<noteq> Some None" and "cu_email u \<noteq> Some None"
  shows "\<exists>c'. setattr_all client_setattr (client_update_dump u) c = Inr c'"
proof (rule setattr_all_succeeds)
  fix x a
  assume "x \<in> set (client_update_dump u)"
  with assms show "\<exists>b. client_setattr x a = Inr b"
    by (cases x) (auto simp: set_client_update_dump split: option.splits)
qed

subsection \<open>Duplicate emails\<close>

lemma first_filter_exists:
  "x \<in> set xs \<Longrightarrow> P x \<Longrightarrow> \<exists>y. first (filter P xs) = Some y"
  using first_filter_None [of P xs] by (cases "first (filter P xs)") auto

lemma get_client_or_404_Inr:
  "get_client_or_404 d cid = Inr c \<Longrightarrow> c \<in> set (clients d) \<and> client_id c = cid"
  by (auto simp: get_client_or_404_def split: option.splits dest: first_filter_Some)

lemma create_client_duplicate:
  assumes "c \<in> set (clients d)" and "client_email c = cc_email p"
  shows "create_client p d = Inl (DuplicateEmail ''A client with this email already exists'')"
proof -
  obtain y where "first (filter (\<lambda>c. client_email c = cc_email p) (clients d)) = Some y"
    using first_filter_exists [of c "clients d" "\<lambda>c. client_email c = cc_email p"] assms by auto
  then show ?thesis
    by (simp add: create_client_def DuplicateEmail_def)
qed

lemma update_client_duplicate:
  assumes "get_client_or_404 d cid = Inr c" and "1 \<le> cid"
    and "other \<in> set (clients d)" and "client_id other \<noteq> cid"
    and "cu_email u = Some (Some (client_email other))"
  shows "update_client cid u d = Inl (DuplicateEmail ''Oops another client already uses this email'')"
proof -
  obtain y where "email_clash d cid (cu_email u) = Some y"
    using first_filter_exists
      [of other "clients d" "\<lambda>c. client_email c = client_email other \<and> client_id c \<noteq> cid"] assms
    by (auto simp: email_clash_def)
  then show ?thesis
    using assms(1,2) by (simp add: update_client_def DuplicateEmail_def)
qed

lemma update_client_own_email:
  assumes "get_client_or_404 d cid = Inr c" and "1 \<le> cid"
    and "distinct (map client_email (clients d))"
    and "cu_email u = Some (Some (client_email c))" and "cu_name u \<noteq> Some None"
  shows "\<exists>d' c'. update_client cid u d = Inr (d', c') \<and> client_email c' = client_email c"
proof -
  have c: "c \<in> set (clients d)" "client_id c = cid"
    using get_client_or_404_Inr [OF assms(1)] by simp_all
  have "\<forall>x \<in> set (clients d). \<not> (client_email x = client_email c \<and> client_id x \<noteq> cid)"
    using assms(3) c by (auto simp: distinct_map dest: inj_onD)
  then have "first (filter (\<lambda>x. client_email x = client_email c \<and> client_id x \<noteq> cid) (clients d)) = None"
    by (simp only: first_filter_None)
  then have no_clash: "email_clash d cid (cu_email u) = None"
    using assms(4) by (simp add: email_clash_def)
  obtain c' where c': "setattr_all client_setattr (client_update_dump u) c = Inr c'"
    using client_patch_succeeds [of u c] assms(4,5) by auto
  have "client_email c' = client_email c"
    using client_email_patched [OF c'] assms(4) by (simp add: patched_def)
  then show ?thesis
    using assms(1,2) no_clash c' by (simp add: update_client_def)
qed

text \<open>
  C7. Creating a client whose email is that of a client of the store fails with
  \<open>DuplicateEmail\<close> (an error result carries no store: nothing is persisted); updating a
  client's email to that of another client fails the same way; updating a client's email
  to its own current value succeeds, the emails of the store being unique, as the
  column is.
\<close>

theorem client_email_duplicates:
  "(c \<in> set (clients d) \<and> client_email c = cc_email p \<longrightarrow>
      create_client p d = Inl (DuplicateEmail ''A client with this email already exists'')) \<and>
   (get_client_or_404 d cid = Inr c \<and> 1 \<le> cid \<and> other \<in> set (clients d) \<and>
    client_id other \<noteq> cid \<and> cu_email u = Some (Some (client_email other)) \<longrightarrow>
      update_client cid u d =
        Inl (DuplicateEmail ''Oops another client already uses this email'')) \<and>
   (get_client_or_404 d cid = Inr c \<and> 1 \<le> cid \<and> distinct (map client_email (clients d)) \<and>
    cu_email u = Some (Some (client_email c)) \<and> cu_name u \<noteq> Some None \<longrightarrow>
      (\<exists>d' c'. update_client cid u d = Inr (d', c') \<and> client_email c' = client_email c))"
  using create_client_duplicate [of c d p] update_client_duplicate [of d cid c other u]
    update_client_own_email [of d cid c u]
  by blast

theorem client_email_duplicates_witness:
  "create_client \<lparr> cc_name = ''Cy'', cc_email = ''ana@x.io'', cc_phone = None \<rparr> studio =
     Inl (DuplicateEmail ''A client with this email already exists'') \<and>
   update_client 1 (same_email\<lparr>cu_email := Some (Some ''ben@x.io'')\<rparr>) studio =
     Inl (DuplicateEmail ''Oops another client already uses this email'') \<and>
   (\<exists>d' c'. update_client 1 same_email studio = Inr (d', c') \<and> client_email c' = ''ana@x.io'')"
proof -
  have g: "get_client_or_404 studio 1 = Inr (clients studio ! 0)"
    by (simp add: get_client_or_404_def first_def studio_def)
  have m: "clients studio ! 0 \<in> set (clients studio)" "clients studio ! 1 \<in> set (clients studio)"
    by (simp_all add: studio_def)
  have e: "client_email (clients studio ! 0) = ''ana@x.io''"
    "client_email (clients studio ! 1) = ''ben@x.io''" "client_id (clients studio ! 1) \<noteq> 1"
    "distinct (map client_email (clients studio))"
    by (simp_all add: studio_def)
  show ?thesis
    using client_email_duplicates
        [of "clients studio ! 0" studio "\<lparr> cc_name = ''Cy'', cc_email = ''ana@x.io'', cc_phone = None \<rparr>"
            1 "clients studio ! 1" "same_email\<lparr>cu_email := Some (Some ''ben@x.io'')\<rparr>"]
      client_email_duplicates
        [of "clients studio ! 0" studio "\<lparr> cc_name = ''Cy'', cc_email = ''ana@x.io'', cc_phone = None \<rparr>"
            1 "clients studio ! 1" same_email]
      g m e
    by (simp add: same_email_def)
qed

subsection \<open>Updates are partial\<close>







subsection \<open>Deleting a client\<close>

lemma delete_client_result:
  assumes "get_client_or_404 d cid = Inr c" and "1 \<le> cid"
  shows "delete_client cid d =
     Inr \<lparr> clients = filter (\<lambda>x. client_id x \<noteq> cid) (clients d),
           shoots = filter (\<lambda>s. shoot_client_id s \<noteq> cid) (shoots d),
           packages = packages d,
           invoices =
             map (\<lambda>i. if \<exists>s \<in> set (shoots d). shoot_client_id s = cid \<and> invoice_shoot_id i = Some (shoot_id s)
                       then i\<lparr>invoice_shoot_id := None\<rparr> else i)
               (filter (\<lambda>i. invoice_client_id i \<noteq> cid) (invoices d)),
           payments =
             filter (\<lambda>p. \<not> (\<exists>i \<in> set (invoices d). invoice_client_id i = cid \<and>
                                 payment_invoice_id p = invoice_id i)) (payments d) \<rparr>"
proof -
  have id: "client_id c = cid"
    using get_client_or_404_Inr [OF assms(1)] by simp
  have inv: "(\<lambda>i. case invoice_shoot_id i of
                   None \<Rightarrow> i
                 | Some s \<Rightarrow>
                     if s \<in> set (map shoot_id (filter (\<lambda>s. shoot_client_id s = cid) (shoots d)))
                     then i\<lparr>invoice_shoot_id := None\<rparr> else i) =
             (\<lambda>i. if \<exists>s \<in> set (shoots d). shoot_client_id s = cid \<and> invoice_shoot_id i = Some (shoot_id s)
                   then i\<lparr>invoice_shoot_id := None\<rparr> else i)"
    by (rule ext) (auto split: option.splits)
  have pay: "(\<lambda>p. payment_invoice_id p \<notin>
                     set (map invoice_id (filter (\<lambda>i. invoice_client_id i = cid) (invoices d)))) =
             (\<lambda>p. \<not> (\<exists>i \<in> set (invoices d). invoice_client_id i = cid \<and>
                          payment_invoice_id p = invoice_id i))"
    by (rule ext) auto
  show ?thesis
    using assms by (simp add: delete_client_def id Let_def inv) (auto intro: filter_cong)
qed

text \<open>
  C9, as amended. Deleting a client of the store succeeds and removes the client, all of
  its shoots, all of its invoices and all payments of those invoices. The other clients,
  the other clients' shoots, the payments of the other invoices and the packages are the
  ones they were; the other clients' invoices are the ones they were, except that a
  reference to one of the deleted client's shoots is cleared.
\<close>

theorem delete_client_cascade:
  assumes "get_client_or_404 d cid = Inr c" and "1 \<le> cid"
  shows "\<exists>d'. delete_client cid d = Inr d' \<and>
     (\<forall>x \<in> set (clients d'). client_id x \<noteq> cid) \<and>
     (\<forall>s \<in> set (shoots d'). shoot_client_id s \<noteq> cid) \<and>
     (\<forall>i \<in> set (invoices d'). invoice_client_id i \<noteq> cid) \<and>
     (\<forall>p \<in> set (payments d'). \<forall>i \<in> set (invoices d).
         invoice_client_id i = cid \<longrightarrow> payment_invoice_id p \<noteq> invoice_id i) \<and>
     clients d' = filter (\<lambda>x. client_id x \<noteq> cid) (clients d) \<and>
     shoots d' = filter (\<lambda>s. shoot_client_id s \<noteq> cid) (shoots d) \<and>
     packages d' = packages d \<and>
     payments d' =
       filter (\<lambda>p. \<not> (\<exists>i \<in> set (invoices d). invoice_client_id i = cid \<and>
                           payment_invoice_id p = invoice_id i)) (payments d) \<and>
     invoices d' =
       map (\<lambda>i. if \<exists>s \<in> set (shoots d). shoot_client_id s = cid \<and>
                      invoice_shoot_id i = Some (shoot_id s)
                 then i\<lparr>invoice_shoot_id := None\<rparr> else i)
         (filter (\<lambda>i. invoice_client_id i \<noteq> cid) (invoices d))"
  unfolding delete_client_result [OF assms] by auto

theorem delete_client_cascade_witness:
  "delete_client 1 studio =
     Inr \<lparr> clients = [clients studio ! 1], shoots = [], packages = packages studio,
           invoices = [(invoices studio ! 1)\<lparr>invoice_shoot_id := None\<rparr>],
           payments = [payments studio ! 1] \<rparr>"
proof -
  have g: "get_client_or_404 studio 1 = Inr (clients studio ! 0)"
    by (simp add: get_client_or_404_def first_def studio_def)
  from delete_client_cascade [OF g] obtain d' where r: "delete_client 1 studio = Inr d'"
    and c: "clients d' = filter (\<lambda>x. client_id x \<noteq> 1) (clients studio)"
    and s: "shoots d' = filter (\<lambda>s. shoot_client_id s \<noteq> 1) (shoots studio)"
    and k: "packages d' = packages studio"
    and p: "payments d' =
       filter (\<lambda>p. \<not> (\<exists>i \<in> set (invoices studio). invoice_client_id i = 1 \<and>
                           payment_invoice_id p = invoice_id i)) (payments studio)"
    and i: "invoices d' =
       map (\<lambda>i. if \<exists>s \<in> set (shoots studio). shoot_client_id s = 1 \<and>
                      invoice_shoot_id i = Some (shoot_id s)
                 then i\<lparr>invoice_shoot_id := None\<rparr> else i)
         (filter (\<lambda>i. invoice_client_id i \<noteq> 1) (invoices studio))"
    by auto
  have "d' = \<lparr> clients = [clients studio ! 1], shoots = [], packages = packages studio,
           invoices = [(invoices studio ! 1)\<lparr>invoice_shoot_id := None\<rparr>],
           payments = [payments studio ! 1] \<rparr>"
    by (rule db.equality) (simp_all add: c s k p i, simp_all add: studio_def)
  with r show ?thesis
    by simp
qed

text \<open>
  C9 as stated has the other clients' records unaffected. In \<open>studio\<close> the second
  invoice is the second client's and names the first client's shoot (\<open>create_invoice\<close>
  accepts such an invoice: it checks that the shoot exists); deleting the first client
  changes that invoice.
\<close>

theorem delete_client_changes_other_invoice:
  "create_invoice cross_invoice studio =
     Inr (studio\<lparr>invoices := invoices studio @
            [\<lparr> invoice_id = 3, invoice_client_id = 2, invoice_shoot_id = Some 1,
               invoice_package_id = None, invoice_amount = 75, invoice_status = ''draft'',
               invoice_issued_date = 25, invoice_due_date = None \<rparr>]\<rparr>,
          \<lparr> invoice_id = 3, invoice_client_id = 2, invoice_shoot_id = Some 1,
            invoice_package_id = None, invoice_amount = 75, invoice_status = ''draft'',
            invoice_issued_date = 25, invoice_due_date = None \<rparr>) \<and>
   invoice_client_id (invoices studio ! 1) = 2 \<and>
   invoice_shoot_id (invoices studio ! 1) = Some 1 \<and>
   delete_client 1 studio =
     Inr \<lparr> clients = [clients studio ! 1], shoots = [], packages = packages studio,
           invoices = [(invoices studio ! 1)\<lparr>invoice_shoot_id := None\<rparr>],
           payments = [payments studio ! 1] \<rparr> \<and>
   (invoices studio ! 1)\<lparr>invoice_shoot_id := None\<rparr> \<noteq> invoices studio ! 1"
  by (simp add: create_invoice_def cross_invoice_def delete_client_def get_client_or_404_def
      first_def next_id_def coalesce_def studio_def Let_def)

subsection \<open>Lists: order and page\<close>

lemma query_skip_limit_valid:
  "valid_page skip limit \<Longrightarrow>
     query_skip_limit skip limit = Inr (nat (coalesce skip 0), nat (coalesce limit 50))"
  by (auto simp: query_skip_limit_def valid_page_def Let_def)

lemma query_skip_limit_invalid:
  "\<not> valid_page skip limit \<Longrightarrow> query_skip_limit skip limit = Inl RequestValidationError"
  by (auto simp: query_skip_limit_def valid_page_def Let_def)

lemma order_by_sorted: "sorted_wrt (\<lambda>a b. key a \<le> key b) (order_by key rows)"
  using sorted_sort_key [of key rows] by (simp add: order_by_def sorted_map)

lemma order_by_desc_sorted: "sorted_wrt (\<lambda>a b. key b \<le> key a) (order_by_desc key rows)"
  using sorted_sort_key [of key rows] by (simp add: order_by_desc_def sorted_wrt_rev sorted_map)

lemma order_by_mset: "mset (order_by key rows) = mset rows"
  by (simp add: order_by_def)

lemma order_by_desc_mset: "mset (order_by_desc key rows) = mset rows"
  by (simp add: order_by_desc_def)

lemma order_by_id_ascending: "sorted_wrt (id_ascending ident) (order_by ident rows)"
proof -
  have "id_ascending ident = (\<lambda>a b. ident a \<le> ident b)"
    by (intro ext) (simp add: id_ascending_def)
  then show ?thesis
    using order_by_sorted [of ident rows] by simp
qed

lemma order_by_desc_id_descending: "sorted_wrt (id_descending ident) (order_by_desc ident rows)"
proof -
  have "id_descending ident = (\<lambda>a b. ident b \<le> ident a)"
    by (intro ext) (simp add: id_descending_def)
  then show ?thesis
    using order_by_desc_sorted [of ident rows] by simp
qed

lemma order_by_desc_newest_first:
  "sorted_wrt (newest_first day ident) (order_by_desc (\<lambda>x. (day x, ident x)) rows)"
proof -
  have "(\<lambda>a b. (day b, ident b) \<le> (day a, ident a)) = newest_first day ident"
    by (intro ext) (auto simp: newest_first_def)
  then show ?thesis
    using order_by_desc_sorted [of "\<lambda>x. (day x, ident x)" rows] by simp
qed

lemma offset_limit_page:
  "offset_limit (nat (coalesce skip 0)) (nat (coalesce limit 50)) rows = page_of rows skip limit"
  by (simp add: offset_limit_def page_of_def)

lemma list_clients_page:
  assumes "valid_page skip limit"
  shows "\<exists>rows. mset rows = mset (clients d) \<and> sorted_wrt (id_ascending client_id) rows \<and>
           list_clients skip limit d = Inr (page_of rows skip limit)"
proof (intro exI conjI)
  show "mset (order_by client_id (clients d)) = mset (clients d)"
    by (rule order_by_mset)
  show "sorted_wrt (id_ascending client_id) (order_by client_id (clients d))"
    by (rule order_by_id_ascending)
  show "list_clients skip limit d = Inr (page_of (order_by client_id (clients d)) skip limit)"
    by (simp add: list_clients_def query_skip_limit_valid [OF assms] offset_limit_page)
qed

lemma list_shoots_page:
  assumes "valid_page skip limit"
  shows "\<exists>rows. mset rows = mset (shoots d) \<and> sorted_wrt (newest_first shoot_date shoot_id) rows \<and>
           list_shoots skip limit d = Inr (page_of rows skip limit)"
proof (intro exI conjI)
  show "mset (order_by_desc (\<lambda>x. (shoot_date x, shoot_id x)) (shoots d)) = mset (shoots d)"
    by (rule order_by_desc_mset)
  show "sorted_wrt (newest_first shoot_date shoot_id)
          (order_by_desc (\<lambda>x. (shoot_date x, shoot_id x)) (shoots d))"
    by (rule order_by_desc_newest_first)
  show "list_shoots skip limit d =
          Inr (page_of (order_by_desc (\<lambda>x. (shoot_date x, shoot_id x)) (shoots d)) skip limit)"
    by (simp add: list_shoots_def query_skip_limit_valid [OF assms] offset_limit_page)
qed

lemma list_invoices_page:
  assumes "valid_page skip limit"
  shows "\<exists>rows. mset rows = mset (filter (issued_in date_from date_to) (invoices d)) \<and>
           sorted_wrt (newest_first invoice_issued_date invoice_id) rows \<and>
           list_invoices skip limit date_from date_to d = Inr (page_of rows skip limit)"
proof (intro exI conjI)
  let ?rows = "order_by_desc (\<lambda>i. (invoice_issued_date i, invoice_id i))
                 (filter (issued_in date_from date_to) (invoices d))"
  show "mset ?rows = mset (filter (issued_in date_from date_to) (invoices d))"
    by (rule order_by_desc_mset)
  show "sorted_wrt (newest_first invoice_issued_date invoice_id) ?rows"
    by (rule order_by_desc_newest_first)
  show "list_invoices skip limit date_from date_to d = Inr (page_of ?rows skip limit)"
    by (simp add: list_invoices_def query_skip_limit_valid [OF assms] offset_limit_page)
qed

lemma list_payments_page:
  assumes "valid_page skip limit"
  shows "\<exists>rows. mset rows = mset (payments d) \<and> sorted_wrt (id_descending payment_id) rows \<and>
           list_payments skip limit d = Inr (page_of rows skip limit)"
proof (intro exI conjI)
  show "mset (order_by_desc payment_id (payments d)) = mset (payments d)"
    by (rule order_by_desc_mset)
  show "sorted_wrt (id_descending payment_id) (order_by_desc payment_id (payments d))"
    by (rule order_by_desc_id_descending)
  show "list_payments skip limit d = Inr (page_of (order_by_desc payment_id (payments d)) skip limit)"
    by (simp add: list_payments_def query_skip_limit_valid [OF assms] offset_limit_page)
qed

lemma list_packages_page:
  assumes "valid_page skip limit"
  shows "\<exists>rows. mset rows = mset (packages d) \<and> sorted_wrt (id_descending package_id) rows \<and>
           list_packages skip limit d = Inr (page_of rows skip limit)"
proof (intro exI conjI)
  show "mset (order_by_desc package_id (packages d)) = mset (packages d)"
    by (rule order_by_desc_mset)
  show "sorted_wrt (id_descending package_id) (order_by_desc package_id (packages d))"
    by (rule order_by_desc_id_descending)
  show "list_packages skip limit d = Inr (page_of (order_by_desc package_id (packages d)) skip limit)"
    by (simp add: list_packages_def query_skip_limit_valid [OF assms] offset_limit_page)
qed

lemma lists_refuse_invalid_page:
  assumes "\<not> valid_page skip limit"
  shows "list_clients skip limit d = Inl RequestValidationError \<and>
         list_shoots skip limit d = Inl RequestValidationError \<and>
         list_invoices skip limit date_from date_to d = Inl RequestValidationError \<and>
         list_payments skip limit d = Inl RequestValidationError \<and>
         list_packages skip limit d = Inl RequestValidationError"
  by (simp add: list_clients_def list_shoots_def list_invoices_def list_payments_def
      list_packages_def query_skip_limit_invalid [OF assms])

text \<open>
  C6, as amended. Every list operation returns the page of its rows in its order: the
  clients by id ascending; the shoots by shoot date and the invoices (those issued in the
  requested range) by issued date, most recent first, ties by id descending; the payments
  and the packages by id descending. The page leaves out \<open>skip\<close> rows (default \<open>0\<close>) and
  holds at most \<open>limit\<close> rows (default \<open>50\<close>); a \<open>skip\<close> below \<open>0\<close> or a \<open>limit\<close> outside
  \<open>1..200\<close> is refused by validation.
\<close>

theorem lists_ordered_and_paged:
  "(valid_page skip limit \<longrightarrow>
      (\<exists>rows. mset rows = mset (clients d) \<and> sorted_wrt (id_ascending client_id) rows \<and>
           list_clients skip limit d = Inr (page_of rows skip limit)) \<and>
      (\<exists>rows. mset rows = mset (shoots d) \<and> sorted_wrt (newest_first shoot_date shoot_id) rows \<and>
           list_shoots skip limit d = Inr (page_of rows skip limit)) \<and>
      (\<exists>rows. mset rows = mset (filter (issued_in date_from date_to) (invoices d)) \<and>
           sorted_wrt (newest_first invoice_issued_date invoice_id) rows \<and>
           list_invoices skip limit date_from date_to d = Inr (page_of rows skip limit)) \<and>
      (\<exists>rows. mset rows = mset (payments d) \<and> sorted_wrt (id_descending payment_id) rows \<and>
           list_payments skip limit d = Inr (page_of rows skip limit)) \<and>
      (\<exists>rows. mset rows = mset (packages d) \<and> sorted_wrt (id_descending package_id) rows \<and>
           list_packages skip limit d = Inr (page_of rows skip limit))) \<and>
   (\<not> valid_page skip limit \<longrightarrow>
      list_clients skip limit d = Inl RequestValidationError \<and>
      list_shoots skip limit d = Inl RequestValidationError \<and>
      list_invoices skip limit date_from date_to d = Inl RequestValidationError \<and>
      list_payments skip limit d = Inl RequestValidationError \<and>
      list_packages skip limit d = Inl RequestValidationError)"
  using list_clients_page [of skip limit d] list_shoots_page [of skip limit d]
    list_invoices_page [of skip limit date_from date_to d] list_payments_page [of skip limit d]
    list_packages_page [of skip limit d] lists_refuse_invalid_page [of skip limit d date_from date_to]
  by blast

text \<open>
  C6 as stated has the payments listed by their date, most recent first. In
  \<open>studio\<close> payment 1 was made at time 20 and payment 2 at time 10; \<open>list_payments\<close>
  returns payment 2 first.
\<close>

theorem list_payments_not_by_date:
  "list_payments None None studio = Inr [payments studio ! 1, payments studio ! 0] \<and>
   \<not> sorted_wrt (newest_first payment_paid_at payment_id) [payments studio ! 1, payments studio ! 0]"
  by (simp add: list_payments_def query_skip_limit_def coalesce_def offset_limit_def
      order_by_desc_def newest_first_def studio_def)

theorem lists_ordered_and_paged_witness:
  "valid_page (Some 1) (Some 1) \<and>
   (\<exists>rows. mset rows = mset (clients studio) \<and> sorted_wrt (id_ascending client_id) rows \<and>
        list_clients (Some 1) (Some 1) studio = Inr (page_of rows (Some 1) (Some 1))) \<and>
   (\<exists>rows. mset rows = mset (filter (issued_in (Some 15) None) (invoices studio)) \<and>
        sorted_wrt (newest_first invoice_issued_date invoice_id) rows \<and>
        list_invoices (Some 1) (Some 1) (Some 15) None studio = Inr (page_of rows (Some 1) (Some 1))) \<and>
   (\<exists>rows. mset rows = mset (payments studio) \<and> sorted_wrt (id_descending payment_id) rows \<and>
        list_payments (Some 1) (Some 1) studio = Inr (page_of rows (Some 1) (Some 1))) \<and>
   list_payments (Some 1) (Some 1) studio = Inr [payments studio ! 0] \<and>
   \<not> valid_page None (Some 201) \<and>
   list_clients None (Some 201) studio = Inl RequestValidationError \<and>
   list_shoots None (Some 201) studio = Inl RequestValidationError \<and>
   list_packages None (Some 201) studio = Inl RequestValidationError"
proof -
  have v: "valid_page (Some 1) (Some 1)" and n: "\<not> valid_page None (Some 201)"
    by (simp_all add: valid_page_def coalesce_def)
  have p: "list_payments (Some 1) (Some 1) studio = Inr [payments studio ! 0]"
    by (simp add: list_payments_def query_skip_limit_def coalesce_def offset_limit_def
        order_by_desc_def studio_def)
  show ?thesis
    using lists_ordered_and_paged [of "Some 1" "Some 1" studio "Some 15" None]
      lists_ordered_and_paged [of None "Some 201" studio None None] v n p
    by simp
qed

subsection \<open>The overpayment invariant\<close>













end
